theory Spec2Isabelle
  imports Complex_Main "HOL-Library.AList"
begin

section \<open>JavaScript numbers\<close>

text \<open>
  A JavaScript \<open>number\<close> is modelled as an exact real or one of the three special
  values. Arithmetic on finite values is exact (rounding, overflow and signed zeros of
  IEEE doubles are outside the model); the special values follow IEEE.
\<close>

datatype jsnum = Fin real | PInf | NInf | NaN

fun isNaN :: "jsnum \<Rightarrow> bool" where
  "isNaN NaN = True"
| "isNaN _ = False"

fun isFinite :: "jsnum \<Rightarrow> bool" where
  "isFinite (Fin _) = True"
| "isFinite _ = False"

text \<open>Truthiness of a number in \<open>x || y\<close>: \<open>0\<close> and \<open>NaN\<close> are falsy.\<close>

fun truthy :: "jsnum \<Rightarrow> bool" where
  "truthy (Fin x) = (x \<noteq> 0)"
| "truthy NaN = False"
| "truthy _ = True"

fun js_neg :: "jsnum \<Rightarrow> jsnum" where
  "js_neg (Fin x) = Fin (- x)"
| "js_neg PInf = NInf"
| "js_neg NInf = PInf"
| "js_neg NaN = NaN"

fun js_add :: "jsnum \<Rightarrow> jsnum \<Rightarrow> jsnum" where
  "js_add (Fin x) (Fin y) = Fin (x + y)"
| "js_add NaN _ = NaN"
| "js_add _ NaN = NaN"
| "js_add PInf NInf = NaN"
| "js_add NInf PInf = NaN"
| "js_add PInf _ = PInf"
| "js_add NInf _ = NInf"
| "js_add _ PInf = PInf"
| "js_add _ NInf = NInf"

definition js_sub :: "jsnum \<Rightarrow> jsnum \<Rightarrow> jsnum" where
  "js_sub a b = js_add a (js_neg b)"

text \<open>Division of a number by a count (a non-negative integer).\<close>

fun js_div :: "jsnum \<Rightarrow> nat \<Rightarrow> jsnum" where
  "js_div (Fin x) n =
     (if n = 0 then (if x > 0 then PInf else if x < 0 then NInf else NaN)
      else Fin (x / real n))"
| "js_div PInf n = PInf"
| "js_div NInf n = NInf"
| "js_div NaN n = NaN"

section \<open>Model quality calculator (modelQuality.ts)\<close>

definition THETA :: real where
  "THETA = 1 / 100"

definition PHI :: real where
  "PHI = 1 / 2"

record ModelQualityMetrics =
  clientId :: string
  loss :: jsnum
  previousLoss :: "jsnum option"
  lossDifference :: "jsnum option"
  numData :: jsnum
  quality :: real

text \<open>
  \<open>computeModelQuality\<close>: the two input guards, the score, and the guard on the score.
  With exact reals the score is always finite, so the last guard of the source never
  fires here and the result is a real.
\<close>

definition computeModelQuality :: "jsnum \<Rightarrow> jsnum \<Rightarrow> real" where
  "computeModelQuality l n =
     (case l of
        Fin L \<Rightarrow>
          (case n of
             Fin N \<Rightarrow>
               if N \<le> 0 then 1 / 2
               else
                 let calculatedDataQualityRatio = \<bar>L\<bar> * N;
                     poweredRatio = calculatedDataQualityRatio powr PHI
                 in if L > 0 then 1 - exp (THETA * poweredRatio)
                    else 1 - exp (- THETA * poweredRatio)
           | _ \<Rightarrow> 1 / 2)
      | _ \<Rightarrow> 1 / 2)"

text \<open>
  The calculator's state: the per-round table \<open>clientMetrics\<close> and the cross-round
  table \<open>previousRoundMetrics\<close>, both JavaScript Maps (insertion ordered, one entry
  per key).
\<close>

record calculator =
  clientMetrics :: "(string \<times> ModelQualityMetrics) list"
  previousRoundMetrics :: "(string \<times> jsnum) list"

text \<open>\<open>previousRoundMetrics.get(clientId) || null\<close>\<close>

definition get_previousLoss :: "calculator \<Rightarrow> string \<Rightarrow> jsnum option" where
  "get_previousLoss c cid =
     (case map_of (previousRoundMetrics c) cid of
        None \<Rightarrow> None
      | Some p \<Rightarrow> if truthy p then Some p else None)"

text \<open>\<open>lossDifference || currentLoss\<close>\<close>

definition quality_argument :: "jsnum option \<Rightarrow> jsnum \<Rightarrow> jsnum" where
  "quality_argument d currentLoss =
     (case d of None \<Rightarrow> currentLoss
      | Some x \<Rightarrow> if truthy x then x else currentLoss)"

text \<open>
  \<open>evaluateModel\<close>. The loss comes from the evaluation of the submitted weights on the
  held-out test data, which is outside the model: it is the argument \<open>ev\<close>, \<open>None\<close>
  when formatting or evaluating the weights throws (the \<open>catch\<close> branch). The result
  is the returned quality and the calculator after the call.
\<close>

definition evaluateModel ::
  "calculator \<Rightarrow> string \<Rightarrow> jsnum option \<Rightarrow> jsnum \<Rightarrow> real \<times> calculator" where
  "evaluateModel c cid ev nd =
     (case ev of
        None \<Rightarrow> (1 / 2, c)
      | Some currentLoss \<Rightarrow>
          if isNaN currentLoss then (1 / 2, c)
          else
            let prev = get_previousLoss c cid;
                diff = (case prev of None \<Rightarrow> None
                        | Some p \<Rightarrow> Some (js_sub p currentLoss));
                q = computeModelQuality (quality_argument diff currentLoss) nd
            in (q,
                c\<lparr>clientMetrics :=
                    AList.update cid
                      \<lparr>clientId = cid, loss = currentLoss, previousLoss = prev,
                       lossDifference = diff, numData = nd, quality = q\<rparr>
                      (clientMetrics c),
                  previousRoundMetrics :=
                    AList.update cid currentLoss (previousRoundMetrics c)\<rparr>))"

text \<open>\<open>getSelectedClients\<close>, on the values of \<open>clientMetrics\<close> in insertion order.\<close>

definition meanQuality :: "ModelQualityMetrics list \<Rightarrow> real" where
  "meanQuality metrics = fold (\<lambda>m s. s + quality m) metrics 0 / real (length metrics)"

definition getSelectedClients :: "calculator \<Rightarrow> string list" where
  "getSelectedClients c =
     (let metrics = map snd (clientMetrics c)
      in if length metrics = 0 then []
         else map clientId (filter (\<lambda>m. quality m > meanQuality metrics) metrics))"

definition clearMetrics :: "calculator \<Rightarrow> calculator" where
  "clearMetrics c = c\<lparr>clientMetrics := []\<rparr>"

definition clearAllMetrics :: "calculator \<Rightarrow> calculator" where
  "clearAllMetrics c = c\<lparr>clientMetrics := [], previousRoundMetrics := []\<rparr>"

section \<open>Model updates and federated averaging (server.ts)\<close>

text \<open>
  A model update is a JavaScript object from layer names to arrays of tensors; a
  mapping of client updates is an object from client ids to model updates. Both are
  association lists in key order (\<open>Object.keys\<close>, \<open>for ... in\<close>), with one entry per
  key.
\<close>

record LayerWeights =
  data :: "jsnum list"
  shape :: "int list"

type_synonym Model = "(string \<times> LayerWeights list) list"

type_synonym ClientWeights = "(string \<times> Model) list"

datatype error = TypeError

text \<open>
  The innermost loop, \<open>for j < weight.data.length\<close>:
  \<open>agg.data[j] += weight.data[j] / numClients\<close>. Writing past the end of \<open>agg.data\<close>
  extends the array with \<open>undefined + x\<close>, which is \<open>NaN\<close>.
\<close>

fun add_data :: "jsnum list \<Rightarrow> jsnum list \<Rightarrow> nat \<Rightarrow> jsnum list" where
  "add_data acc [] n = acc"
| "add_data [] (w # ws) n = NaN # add_data [] ws n"
| "add_data (a # acc) (w # ws) n = js_add a (js_div w n) # add_data acc ws n"

text \<open>
  The loop over the tensors of one layer, \<open>for i < layerWeights.length\<close>. The
  accumulator is \<open>aggregatedWeights[layerName]\<close>; reading \<open>.data\<close> of a missing
  accumulator tensor throws a TypeError, which happens only when the inner loop runs
  at least once.
\<close>

fun add_layer ::
  "LayerWeights list \<Rightarrow> LayerWeights list \<Rightarrow> nat \<Rightarrow> error + LayerWeights list" where
  "add_layer aggs [] n = Inr aggs"
| "add_layer [] (w # ws) n = (if data w = [] then add_layer [] ws n else Inl TypeError)"
| "add_layer (a # aggs) (w # ws) n =
     (case add_layer aggs ws n of
        Inl e \<Rightarrow> Inl e
      | Inr r \<Rightarrow> Inr (a\<lparr>data := add_data (data a) (data w) n\<rparr> # r))"

text \<open>
  The loop over the layers of one client, \<open>for layerName in clientWeight\<close>. A layer
  name that the accumulator does not have makes \<open>aggregatedWeights[layerName][i]\<close>
  throw as soon as the inner loop runs.
\<close>

fun add_client :: "Model \<Rightarrow> Model \<Rightarrow> nat \<Rightarrow> error + Model" where
  "add_client agg [] n = Inr agg"
| "add_client agg ((layerName, layerWeights) # rest) n =
     (case map_of agg layerName of
        None \<Rightarrow>
          if list_all (\<lambda>w. data w = []) layerWeights then add_client agg rest n
          else Inl TypeError
      | Some aggs \<Rightarrow>
          (case add_layer aggs layerWeights n of
             Inl e \<Rightarrow> Inl e
           | Inr aggs' \<Rightarrow> add_client (AList.update layerName aggs' agg) rest n))"

text \<open>The loop over the clients, \<open>for clientId in clientWeights\<close>.\<close>

fun add_clients :: "Model \<Rightarrow> ClientWeights \<Rightarrow> nat \<Rightarrow> error + Model" where
  "add_clients agg [] n = Inr agg"
| "add_clients agg ((cid, clientWeight) # rest) n =
     (case add_client agg clientWeight n of
        Inl e \<Rightarrow> Inl e
      | Inr agg' \<Rightarrow> add_clients agg' rest n)"

text \<open>
  The zero-filled copy of the first client's structure. With no client,
  \<open>firstClientWeights\<close> is \<open>undefined\<close> and \<open>for ... in undefined\<close> runs no iteration.
\<close>

definition zero_like :: "LayerWeights \<Rightarrow> LayerWeights" where
  "zero_like weight = \<lparr>data = replicate (length (data weight)) (Fin 0), shape = shape weight\<rparr>"

definition init_aggregated :: "ClientWeights \<Rightarrow> Model" where
  "init_aggregated clientWeights =
     (case clientWeights of
        [] \<Rightarrow> []
      | (firstClientId, firstClientWeights) # _ \<Rightarrow>
          map (\<lambda>(layerName, ws). (layerName, map zero_like ws)) firstClientWeights)"

definition federatedAveragingAll :: "ClientWeights \<Rightarrow> error + Model" where
  "federatedAveragingAll clientWeights =
     (let numClients = length clientWeights
      in add_clients (init_aggregated clientWeights) clientWeights numClients)"

text \<open>
  \<open>federatedAveraging\<close>, the variant that averages the selected clients only and falls
  back to all clients when none is selected. A selected client without an entry in
  \<open>clientWeights\<close> contributes nothing (\<open>for ... in undefined\<close>). No caller of this
  function exists in the server.
\<close>

definition federatedAveraging :: "calculator \<Rightarrow> ClientWeights \<Rightarrow> error + Model" where
  "federatedAveraging calc clientWeights =
     (let selectedClients = getSelectedClients calc
      in if length selectedClients = 0 then federatedAveragingAll clientWeights
         else
           let numSelectedClients = length selectedClients;
               chosen = map (\<lambda>cid. (cid, case map_of clientWeights cid of
                                             None \<Rightarrow> [] | Some m \<Rightarrow> m)) selectedClients
           in add_clients (init_aggregated chosen) chosen numSelectedClients)"

section \<open>Server state (server.ts)\<close>

datatype ClientStatus = idle | training | aggregating

record ClientInfo =
  info_clientId :: string
  status :: ClientStatus
  lastUpdate :: real

datatype RoundStatus = in_progress | completed

text \<open>
  \<open>FederatedRound\<close>; the fields \<open>clients\<close> and \<open>aggregated\<close> of its \<open>modelWeights\<close>
  are \<open>submissions\<close> and \<open>aggregated\<close> here.
\<close>

record FederatedRound =
  roundId :: int
  participants :: "string list"
  submissions :: ClientWeights
  aggregated :: "Model option"
  round_status :: RoundStatus

record ServerConfig =
  totalRounds :: int
  requiredClients :: int
  aggregationInterval :: int
  dataset :: string
  synchronousRounds :: int

text \<open>\<open>Partial<ServerConfig>\<close>, the body of \<open>POST /config\<close>.\<close>

record PartialConfig =
  new_totalRounds :: "int option"
  new_requiredClients :: "int option"
  new_aggregationInterval :: "int option"
  new_dataset :: "string option"
  new_synchronousRounds :: "int option"

record ClientTimingMetrics =
  trainingTime :: real
  communicationTime :: real
  timestamp :: real

text \<open>
  The module-level variables of the server. Times are milliseconds. The callbacks
  registered with \<open>setTimeout\<close> and not yet run are part of the state:
  \<open>deadlineTimers\<close> holds the fire time of every pending deadline callback,
  \<open>startTimers\<close> counts the pending \<open>setTimeout(startNewRound, 1000)\<close>.
\<close>

record server =
  serverConfig :: ServerConfig
  REQUIRED_CLIENTS :: int
  TOTAL_ROUNDS :: int
  clients :: "(string \<times> ClientInfo) list"
  rounds :: "FederatedRound list"
  currentRound :: "FederatedRound option"
  globalModel :: "Model option"
  currentRoundNumber :: int
  isAggregating :: bool
  roundDeadline :: "real option"
  roundStartTime :: "real option"
  clientTimingMetrics :: "(string \<times> ClientTimingMetrics list) list"
  roundMeanTimes :: "(int \<times> real) list"
  overallMeanTime :: real
  modelQualityCalculator :: calculator
  deadlineTimers :: "real list"
  startTimers :: nat

definition initial_server :: "ServerConfig \<Rightarrow> server" where
  "initial_server cfg =
     \<lparr>serverConfig = cfg,
      REQUIRED_CLIENTS = requiredClients cfg,
      TOTAL_ROUNDS = totalRounds cfg,
      clients = [],
      rounds = [],
      currentRound = None,
      globalModel = None,
      currentRoundNumber = 0,
      isAggregating = False,
      roundDeadline = None,
      roundStartTime = None,
      clientTimingMetrics = [],
      roundMeanTimes = [],
      overallMeanTime = 0,
      modelQualityCalculator = \<lparr>clientMetrics = [], previousRoundMetrics = []\<rparr>,
      deadlineTimers = [],
      startTimers = 0\<rparr>"

subsection \<open>Timing tracker\<close>

definition calculateOverallMeanTime :: "server \<Rightarrow> server" where
  "calculateOverallMeanTime s =
     (let roundTimes = map snd (roundMeanTimes s)
      in if length roundTimes > 0
         then s\<lparr>overallMeanTime := fold (\<lambda>b a. a + b) roundTimes 0 / real (length roundTimes)\<rparr>
         else s)"

text \<open>
  The times of the clients whose history has an entry for the round. For a round
  number below 1 the source reads \<open>timings[roundNumber - 1]\<close> out of range and throws.
\<close>

fun round_times :: "ClientTimingMetrics list list \<Rightarrow> int \<Rightarrow> error + real list" where
  "round_times [] roundNumber = Inr []"
| "round_times (timings # rest) roundNumber =
     (if int (length timings) \<ge> roundNumber then
        (if roundNumber < 1 then Inl TypeError
         else
           (case round_times rest roundNumber of
              Inl e \<Rightarrow> Inl e
            | Inr ts \<Rightarrow>
                let timing = timings ! nat (roundNumber - 1)
                in Inr ((trainingTime timing + communicationTime timing) # ts)))
      else round_times rest roundNumber)"

definition calculateAndStoreRoundMeanTime :: "server \<Rightarrow> int \<Rightarrow> error + server" where
  "calculateAndStoreRoundMeanTime s roundNumber =
     (case round_times (map snd (clientTimingMetrics s)) roundNumber of
        Inl e \<Rightarrow> Inl e
      | Inr tms \<Rightarrow>
          if length tms > 0 then
            let mean = fold (\<lambda>b a. a + b) tms 0 / real (length tms)
            in Inr (calculateOverallMeanTime
                     (s\<lparr>roundMeanTimes := AList.update roundNumber mean (roundMeanTimes s)\<rparr>))
          else Inr s)"

subsection \<open>Round orchestration\<close>

definition shouldUseSynchronousMode :: "server \<Rightarrow> bool" where
  "shouldUseSynchronousMode s = (currentRoundNumber s \<le> synchronousRounds (serverConfig s))"

definition haveAllClientsSubmitted :: "server \<Rightarrow> bool" where
  "haveAllClientsSubmitted s =
     (case currentRound s of
        None \<Rightarrow> False
      | Some r \<Rightarrow> length (submissions r) = length (clients s))"

definition hasDeadlinePassed :: "server \<Rightarrow> real \<Rightarrow> bool" where
  "hasDeadlinePassed s now =
     (case roundDeadline s of None \<Rightarrow> False | Some d \<Rightarrow> now \<ge> d)"

definition shouldStartAggregation :: "server \<Rightarrow> real \<Rightarrow> bool" where
  "shouldStartAggregation s now =
     (if shouldUseSynchronousMode s then haveAllClientsSubmitted s
      else haveAllClientsSubmitted s \<or> hasDeadlinePassed s now)"

text \<open>\<open>Math.max(10000, Math.min(60000, overallMeanTime || 30000))\<close>\<close>

definition deadlineMs :: "real \<Rightarrow> real" where
  "deadlineMs omt = max 10000 (min 60000 (if omt \<noteq> 0 then omt else 30000))"

definition set_all_status :: "ClientStatus \<Rightarrow> (string \<times> ClientInfo) list \<Rightarrow> (string \<times> ClientInfo) list" where
  "set_all_status st cs = map (\<lambda>(cid, client). (cid, client\<lparr>status := st\<rparr>)) cs"

text \<open>
  \<open>startNewRound\<close>, with \<open>Date.now()\<close> as \<open>now\<close>. \<open>initializeModel\<close> is given one of
  the architectures of \<open>getModelArchitecture\<close>, whose layer types it supports, so the
  \<open>catch\<close> branch is not reached.
\<close>

definition startNewRound :: "server \<Rightarrow> real \<Rightarrow> server" where
  "startNewRound s now =
     (if currentRound s \<noteq> None \<or> int (length (clients s)) < REQUIRED_CLIENTS s
         \<or> currentRoundNumber s \<ge> TOTAL_ROUNDS s \<or> isAggregating s
      then s
      else
        let s1 = s\<lparr>modelQualityCalculator := clearMetrics (modelQualityCalculator s),
                   currentRoundNumber := currentRoundNumber s + 1\<rparr>;
            s2 = s1\<lparr>currentRound :=
                      Some \<lparr>roundId = currentRoundNumber s1, participants = [],
                            submissions = [], aggregated = None,
                            round_status = in_progress\<rparr>\<rparr>;
            s3 = (if shouldUseSynchronousMode s2
                  then s2\<lparr>roundStartTime := Some now, roundDeadline := None\<rparr>
                  else s2\<lparr>roundStartTime := Some now,
                          roundDeadline := Some (now + deadlineMs (overallMeanTime s2)),
                          deadlineTimers :=
                            deadlineTimers s2 @ [now + deadlineMs (overallMeanTime s2)]\<rparr>)
        in s3\<lparr>clients := set_all_status training (clients s3)\<rparr>)"

text \<open>
  The weights of the selected clients:
  \<open>selectedClients.forEach(id => { if (clients[id]) selectedWeights[id] = clients[id] })\<close>
\<close>

definition selectedWeights :: "string list \<Rightarrow> ClientWeights \<Rightarrow> ClientWeights" where
  "selectedWeights selected subs =
     fold (\<lambda>cid acc. case map_of subs cid of
                        None \<Rightarrow> acc
                      | Some w \<Rightarrow> AList.update cid w acc) selected []"

text \<open>
  \<open>performAggregation\<close>, up to its first \<open>await\<close> (the evaluation and logging of the
  new global model, which change none of the variables). An exception inside the
  \<open>try\<close> leaves only \<open>isAggregating = false\<close> behind.
\<close>

definition performAggregation :: "server \<Rightarrow> server" where
  "performAggregation s =
     (case currentRound s of
        None \<Rightarrow> s
      | Some r \<Rightarrow>
          if isAggregating s then s
          else
            (case calculateAndStoreRoundMeanTime (s\<lparr>isAggregating := True\<rparr>)
                    (currentRoundNumber s) of
               Inl e \<Rightarrow> s\<lparr>isAggregating := False\<rparr>
             | Inr s1 \<Rightarrow>
                 let selected = getSelectedClients (modelQualityCalculator s1)
                 in (case federatedAveragingAll (selectedWeights selected (submissions r)) of
                       Inl e \<Rightarrow> s1\<lparr>isAggregating := False\<rparr>
                     | Inr aggregatedWeights \<Rightarrow>
                         s1\<lparr>globalModel := Some aggregatedWeights,
                            rounds := rounds s1 @
                              [r\<lparr>aggregated := Some aggregatedWeights,
                                 round_status := completed\<rparr>],
                            currentRound := None,
                            roundDeadline := None,
                            roundStartTime := None,
                            clients := set_all_status idle (clients s1),
                            isAggregating := False,
                            startTimers :=
                              (if currentRoundNumber s1 < TOTAL_ROUNDS s1
                               then Suc (startTimers s1) else startTimers s1)\<rparr>)))"

subsection \<open>Request handlers\<close>

text \<open>
  Each handler is one step on the server state; the status code and body of the
  response are not modelled. The handlers run to completion one at a time: the
  suspension of \<open>POST /submit-weights\<close> inside \<open>evaluateModel\<close> is not modelled, and the
  evaluation result is an argument of the step.
\<close>

definition register :: "server \<Rightarrow> string \<Rightarrow> real \<Rightarrow> server" where
  "register s cid now =
     (if int (length (clients s)) \<ge> REQUIRED_CLIENTS s then s
      else
        let s1 = s\<lparr>clients :=
                     AList.update cid
                       \<lparr>info_clientId = cid, status = idle, lastUpdate = now\<rparr> (clients s)\<rparr>
        in if int (length (clients s1)) = REQUIRED_CLIENTS s1 then startNewRound s1 now
           else s1)"

definition round_status_request :: "server \<Rightarrow> string \<Rightarrow> real \<Rightarrow> server" where
  "round_status_request s cid now =
     (case map_of (clients s) cid of
        None \<Rightarrow> s
      | Some client \<Rightarrow>
          if currentRound s = None then
            (if int (length (clients s)) \<ge> REQUIRED_CLIENTS s
                \<and> currentRoundNumber s < TOTAL_ROUNDS s \<and> \<not> isAggregating s
             then startNewRound s now else s)
          else s)"

definition push_timing ::
  "string \<Rightarrow> ClientTimingMetrics \<Rightarrow> (string \<times> ClientTimingMetrics list) list
     \<Rightarrow> (string \<times> ClientTimingMetrics list) list" where
  "push_timing cid tm ctm =
     (case map_of ctm cid of
        None \<Rightarrow> AList.update cid [tm] ctm
      | Some timings \<Rightarrow> AList.update cid (timings @ [tm]) ctm)"

text \<open>
  \<open>POST /submit-weights\<close> with body \<open>{clientId, weights, numData, trainingTime,
  communicationStartTime}\<close>; \<open>ev\<close> is the evaluation result handed to
  \<open>evaluateModel\<close>, \<open>perfNow\<close> is \<open>performance.now()\<close> and \<open>now\<close> is \<open>Date.now()\<close>.
\<close>

definition submit_weights ::
  "server \<Rightarrow> string \<Rightarrow> Model \<Rightarrow> jsnum \<Rightarrow> real \<Rightarrow> real \<Rightarrow> jsnum option \<Rightarrow> real \<Rightarrow> real
     \<Rightarrow> server" where
  "submit_weights s cid weights nd tTime communicationStartTime ev perfNow now =
     (case map_of (clients s) cid of
        None \<Rightarrow> s
      | Some client \<Rightarrow>
          (case currentRound s of
             None \<Rightarrow> s
           | Some r \<Rightarrow>
               if map_of (submissions r) cid \<noteq> None then s
               else
                 let timingMetrics =
                       \<lparr>trainingTime = tTime,
                        communicationTime = perfNow - communicationStartTime,
                        timestamp = now\<rparr>;
                     s1 = s\<lparr>clientTimingMetrics :=
                              push_timing cid timingMetrics (clientTimingMetrics s)\<rparr>;
                     (q, calc) = evaluateModel (modelQualityCalculator s1) cid ev nd;
                     s2 = s1\<lparr>modelQualityCalculator := calc,
                             clients :=
                               AList.update cid
                                 (client\<lparr>status := aggregating, lastUpdate := now\<rparr>)
                                 (clients s1)\<rparr>;
                     s3 = s2\<lparr>currentRound :=
                               Some (r\<lparr>submissions :=
                                        AList.update cid weights (submissions r)\<rparr>)\<rparr>
                 in if shouldStartAggregation s3 now then performAggregation s3 else s3))"

definition delete_client :: "server \<Rightarrow> string \<Rightarrow> server" where
  "delete_client s cid =
     (if map_of (clients s) cid = None then s
      else s\<lparr>clients := AList.delete cid (clients s)\<rparr>)"

definition merge_config :: "ServerConfig \<Rightarrow> PartialConfig \<Rightarrow> ServerConfig" where
  "merge_config c n =
     \<lparr>totalRounds = (case new_totalRounds n of None \<Rightarrow> totalRounds c | Some v \<Rightarrow> v),
      requiredClients =
        (case new_requiredClients n of None \<Rightarrow> requiredClients c | Some v \<Rightarrow> v),
      aggregationInterval =
        (case new_aggregationInterval n of None \<Rightarrow> aggregationInterval c | Some v \<Rightarrow> v),
      dataset = (case new_dataset n of None \<Rightarrow> dataset c | Some v \<Rightarrow> v),
      synchronousRounds =
        (case new_synchronousRounds n of None \<Rightarrow> synchronousRounds c | Some v \<Rightarrow> v)\<rparr>"

definition invalid_config :: "PartialConfig \<Rightarrow> bool" where
  "invalid_config n =
     ((case new_totalRounds n of None \<Rightarrow> False | Some v \<Rightarrow> v < 1)
      \<or> (case new_requiredClients n of None \<Rightarrow> False | Some v \<Rightarrow> v < 1)
      \<or> (case new_aggregationInterval n of None \<Rightarrow> False | Some v \<Rightarrow> v < 100))"

definition post_config :: "server \<Rightarrow> PartialConfig \<Rightarrow> server" where
  "post_config s newConfig =
     (if invalid_config newConfig then s
      else
        let cfg = merge_config (serverConfig s) newConfig
        in s\<lparr>serverConfig := cfg,
             REQUIRED_CLIENTS := requiredClients cfg,
             TOTAL_ROUNDS := totalRounds cfg\<rparr>)"

text \<open>
  The two timer callbacks. Each runs only for a timer that is pending; when it runs
  is the environment's choice.
\<close>

definition deadline_timer :: "server \<Rightarrow> real \<Rightarrow> server" where
  "deadline_timer s t =
     (if t \<in> set (deadlineTimers s) then
        let s1 = s\<lparr>deadlineTimers := remove1 t (deadlineTimers s)\<rparr>
        in if currentRound s1 \<noteq> None \<and> \<not> isAggregating s1 then performAggregation s1
           else s1
      else s)"

definition start_timer :: "server \<Rightarrow> real \<Rightarrow> server" where
  "start_timer s now =
     (case startTimers s of
        0 \<Rightarrow> s
      | Suc k \<Rightarrow> startNewRound (s\<lparr>startTimers := k\<rparr>) now)"

datatype event =
    Register string real
  | RoundStatus string real
  | SubmitWeights string Model jsnum real real "jsnum option" real real
  | DeleteClient string
  | PostConfig PartialConfig
  | DeadlineTimer real
  | StartTimer real

fun handle :: "server \<Rightarrow> event \<Rightarrow> server" where
  "handle s (Register cid now) = register s cid now"
| "handle s (RoundStatus cid now) = round_status_request s cid now"
| "handle s (SubmitWeights cid weights nd tTime cst ev perfNow now) =
     submit_weights s cid weights nd tTime cst ev perfNow now"
| "handle s (DeleteClient cid) = delete_client s cid"
| "handle s (PostConfig newConfig) = post_config s newConfig"
| "handle s (DeadlineTimer t) = deadline_timer s t"
| "handle s (StartTimer now) = start_timer s now"

text \<open>The state after a sequence of events, from the initial state for a configuration.\<close>

definition run :: "ServerConfig \<Rightarrow> event list \<Rightarrow> server" where
  "run cfg evs = foldl handle (initial_server cfg) evs"

fun is_delete :: "event \<Rightarrow> bool" where
  "is_delete (DeleteClient cid) = True"
| "is_delete _ = False"

section \<open>Auxiliary notions for the properties\<close>



text \<open>
  The quality formula in the words of the specification: \<open>\<Delta> = prev - loss\<close> when a
  previous loss exists, else \<open>\<Delta> = loss\<close>; \<open>ratio = (|\<Delta>| \<cdot> numData)^0.5\<close>;
  \<open>quality = 1 - e^(0.01 \<cdot> ratio)\<close> if \<open>\<Delta> > 0\<close>, else \<open>1 - e^(-0.01 \<cdot> ratio)\<close>.
\<close>

definition spec_quality :: "real option \<Rightarrow> real \<Rightarrow> real \<Rightarrow> real" where
  "spec_quality prev l n =
     (let delta = (case prev of None \<Rightarrow> l | Some p \<Rightarrow> p - l);
          ratio = (\<bar>delta\<bar> * n) powr (1 / 2)
      in if delta > 0 then 1 - exp (1 / 100 * ratio) else 1 - exp (- (1 / 100) * ratio))"




text \<open>
  What makes federated averaging throw. \<open>tensor_count m name\<close> is the number of tensors
  that \<open>m\<close> has under a layer name (0 when it has no such layer); an update fits a
  template when every tensor it holds beyond the template's tensors, in every layer,
  has empty data.
\<close>

definition tensor_count :: "Model \<Rightarrow> string \<Rightarrow> nat" where
  "tensor_count m name = (case map_of m name of None \<Rightarrow> 0 | Some ts \<Rightarrow> length ts)"

definition fits_layer :: "nat \<Rightarrow> LayerWeights list \<Rightarrow> bool" where
  "fits_layer k lw = list_all (\<lambda>w. data w = []) (drop k lw)"

definition fits :: "Model \<Rightarrow> Model \<Rightarrow> bool" where
  "fits template u = list_all (\<lambda>(name, lw). fits_layer (tensor_count template name) lw) u"

definition first_update :: "ClientWeights \<Rightarrow> Model" where
  "first_update cw = (case cw of [] \<Rightarrow> [] | (c, m) # rest \<Rightarrow> m)"




text \<open>
  The submissions maps of all rounds of a state: the round in progress, if any, and
  the archived rounds.
\<close>

definition round_submissions :: "server \<Rightarrow> ClientWeights list" where
  "round_submissions s =
     (case currentRound s of None \<Rightarrow> [] | Some r \<Rightarrow> [submissions r])
     @ map submissions (rounds s)"

definition no_duplicates :: "server \<Rightarrow> bool" where
  "no_duplicates s = list_all (\<lambda>subs. distinct (map fst subs)) (round_submissions s)"

definition submitters_registered :: "server \<Rightarrow> bool" where
  "submitters_registered s =
     list_all (\<lambda>subs. set (map fst subs) \<subseteq> set (map fst (clients s))) (round_submissions s)"

section \<open>Example inputs\<close>





definition example_config :: ServerConfig where
  "example_config =
     \<lparr>totalRounds = 5, requiredClients = 3, aggregationInterval = 1000,
      dataset = ''mnist'', synchronousRounds = 5\<rparr>"


text \<open>A calculator in which client \<open>a\<close> has the previous loss 2.\<close>

definition cPrev :: calculator where
  "cPrev = \<lparr>clientMetrics = [], previousRoundMetrics = [(''a'', Fin 2)]\<rparr>"

text \<open>
  Two client updates with one layer \<open>l\<close> of one tensor each: client \<open>a\<close> sends two
  numbers with shape \<open>[2]\<close>, client \<open>b\<close> one number with shape \<open>[1]\<close>.
\<close>

definition mismatched_updates :: ClientWeights where
  "mismatched_updates =
     [(''a'', [(''l'', [\<lparr>data = [Fin 1, Fin 2], shape = [2]\<rparr>])]),
      (''b'', [(''l'', [\<lparr>data = [Fin 3], shape = [1]\<rparr>])])]"

text \<open>Client \<open>b\<close> sends a layer \<open>m\<close> that the first client does not have.\<close>

definition extra_layer_updates :: ClientWeights where
  "extra_layer_updates =
     [(''a'', [(''l'', [\<lparr>data = [Fin 1], shape = [1]\<rparr>])]),
      (''b'', [(''m'', [\<lparr>data = [Fin 3], shape = [1]\<rparr>])])]"



text \<open>
  An asynchronous first round with four clients, three of which submit: \<open>a\<close> and \<open>b\<close>
  with quality 0.5 (invalid sample count) and updates of different layers, \<open>c\<close> with
  quality 0 (loss 0).
\<close>

definition async_config :: ServerConfig where
  "async_config =
     \<lparr>totalRounds = 5, requiredClients = 4, aggregationInterval = 1000,
      dataset = ''mnist'', synchronousRounds = 0\<rparr>"

definition failing_events :: "event list" where
  "failing_events =
     [Register ''a'' 0, Register ''b'' 0, Register ''c'' 0, Register ''d'' 0,
      SubmitWeights ''a'' [(''l'', [\<lparr>data = [Fin 1], shape = [1]\<rparr>])] (Fin 0) 1 0
        (Some (Fin 1)) 1 1,
      SubmitWeights ''b'' [(''m'', [\<lparr>data = [Fin 3], shape = [1]\<rparr>])] (Fin 0) 1 0
        (Some (Fin 1)) 1 1,
      SubmitWeights ''c'' [(''l'', [\<lparr>data = [Fin 5], shape = [1]\<rparr>])] (Fin 1) 1 0
        (Some (Fin 0)) 1 1]"

text \<open>
  A synchronous first round with two clients whose submissions get the same quality
  (0.5, by an invalid sample count), so that no client is above the mean.
\<close>

definition two_client_config :: ServerConfig where
  "two_client_config =
     \<lparr>totalRounds = 5, requiredClients = 2, aggregationInterval = 1000,
      dataset = ''mnist'', synchronousRounds = 5\<rparr>"

definition equal_quality_updates :: ClientWeights where
  "equal_quality_updates =
     [(''a'', [(''l'', [\<lparr>data = [Fin 1], shape = [1]\<rparr>])]),
      (''b'', [(''l'', [\<lparr>data = [Fin 3], shape = [1]\<rparr>])])]"

definition equal_quality_events :: "event list" where
  "equal_quality_events =
     [Register ''a'' 0, Register ''b'' 0,
      SubmitWeights ''a'' [(''l'', [\<lparr>data = [Fin 1], shape = [1]\<rparr>])] (Fin 0) 1 0
        (Some (Fin 1)) 1 1,
      SubmitWeights ''b'' [(''l'', [\<lparr>data = [Fin 3], shape = [1]\<rparr>])] (Fin 0) 1 0
        (Some (Fin 1)) 1 1]"

text \<open>
  A synchronous first round with three registered clients: \<open>a\<close> submits and is then
  removed by the administrator; afterwards \<open>b\<close> submits. Client \<open>c\<close> never submits.
\<close>

definition barrier_events :: "event list" where
  "barrier_events =
     [Register ''a'' 0, Register ''b'' 0, Register ''c'' 0,
      SubmitWeights ''a'' [(''l'', [\<lparr>data = [Fin 1], shape = [1]\<rparr>])] (Fin 0) 1 0
        (Some (Fin 1)) 1 1,
      DeleteClient ''a'']"

definition barrier_submit :: event where
  "barrier_submit =
     SubmitWeights ''b'' [(''l'', [\<lparr>data = [Fin 3], shape = [1]\<rparr>])] (Fin 0) 1 0
        (Some (Fin 1)) 2 2"




text \<open>
  A synchronous first round with two registered clients: \<open>a\<close> submits and is removed,
  then \<open>b\<close> submits.
\<close>

definition removal_events :: "event list" where
  "removal_events =
     [Register ''a'' 0, Register ''b'' 0,
      SubmitWeights ''a'' [] (Fin 0) 1 0 (Some (Fin 1)) 1 1,
      DeleteClient ''a'',
      SubmitWeights ''b'' [] (Fin 0) 1 0 (Some (Fin 1)) 2 2]"

text \<open>Two of three clients have submitted in the round in progress.\<close>

definition partial_round_events :: "event list" where
  "partial_round_events =
     [Register ''a'' 0, Register ''b'' 0, Register ''c'' 0,
      SubmitWeights ''a'' [] (Fin 0) 1 0 (Some (Fin 1)) 1 1,
      SubmitWeights ''b'' [] (Fin 0) 1 0 (Some (Fin 1)) 2 2]"

text \<open>
  One client and asynchronous rounds only. Round 1 starts at 0 with the deadline 30000
  and is completed by the client's submission at 1; round 2 starts at 1001.
\<close>

definition always_async_config :: ServerConfig where
  "always_async_config =
     \<lparr>totalRounds = 5, requiredClients = 1, aggregationInterval = 1000,
      dataset = ''mnist'', synchronousRounds = 0\<rparr>"

definition stale_timer_events :: "event list" where
  "stale_timer_events =
     [Register ''a'' 0, SubmitWeights ''a'' [] (Fin 0) 20000 0 (Some (Fin 1)) 20000 1,
      StartTimer 1001]"

section \<open>Verified properties\<close>

subsection \<open>Selection by mean quality\<close>










subsection \<open>Sign of the quality score\<close>

lemma cmq_pos:
  assumes "L > 0" "N > 0"
  shows "computeModelQuality (Fin L) (Fin N) = 1 - exp (THETA * (\<bar>L\<bar> * N) powr PHI)"
    and "computeModelQuality (Fin L) (Fin N) < 0"
proof -
  show eq: "computeModelQuality (Fin L) (Fin N) = 1 - exp (THETA * (\<bar>L\<bar> * N) powr PHI)"
    using assms by (simp add: computeModelQuality_def Let_def)
  from assms have "\<bar>L\<bar> > 0" by simp
  with assms have "\<bar>L\<bar> * N > 0" by (intro mult_pos_pos)
  then have "(\<bar>L\<bar> * N) powr PHI > 0" by (simp only: powr_gt_zero)
  then have "THETA * (\<bar>L\<bar> * N) powr PHI > 0" by (simp add: THETA_def)
  then have "exp (THETA * (\<bar>L\<bar> * N) powr PHI) > 1" by simp
  with eq show "computeModelQuality (Fin L) (Fin N) < 0" by simp
qed

lemma cmq_neg:
  assumes "L < 0" "N > 0"
  shows "computeModelQuality (Fin L) (Fin N) = 1 - exp (- THETA * (\<bar>L\<bar> * N) powr PHI)"
    and "0 < computeModelQuality (Fin L) (Fin N)"
    and "computeModelQuality (Fin L) (Fin N) < 1"
proof -
  show eq: "computeModelQuality (Fin L) (Fin N) = 1 - exp (- THETA * (\<bar>L\<bar> * N) powr PHI)"
    using assms by (simp add: computeModelQuality_def Let_def)
  from assms have "\<bar>L\<bar> > 0" by simp
  with assms have "\<bar>L\<bar> * N > 0" by (intro mult_pos_pos)
  then have "(\<bar>L\<bar> * N) powr PHI > 0" by (simp only: powr_gt_zero)
  then have "- THETA * (\<bar>L\<bar> * N) powr PHI < 0" by (simp add: THETA_def)
  then have "exp (- THETA * (\<bar>L\<bar> * N) powr PHI) < 1" by simp
  with eq show "0 < computeModelQuality (Fin L) (Fin N)" by simp
  from eq show "computeModelQuality (Fin L) (Fin N) < 1" by simp
qed

subsection \<open>Stored quality records are consistent in every reachable state\<close>


lemma calc_performAggregation [simp]:
  "modelQualityCalculator (performAggregation s) = modelQualityCalculator s"
  by (simp add: performAggregation_def calculateAndStoreRoundMeanTime_def
      calculateOverallMeanTime_def Let_def split: option.splits sum.splits)






lemma run_snoc: "run cfg (evs @ [e]) = handle (run cfg evs) e"
  by (simp add: run_def)


subsection \<open>Evaluating concrete runs\<close>

lemmas run_defs = run_def initial_server_def register_def startNewRound_def
  submit_weights_def shouldStartAggregation_def shouldUseSynchronousMode_def
  haveAllClientsSubmitted_def hasDeadlinePassed_def performAggregation_def
  calculateAndStoreRoundMeanTime_def calculateOverallMeanTime_def
  getSelectedClients_def meanQuality_def selectedWeights_def federatedAveragingAll_def
  init_aggregated_def evaluateModel_def get_previousLoss_def quality_argument_def
  clearMetrics_def set_all_status_def push_timing_def start_timer_def js_sub_def
  delete_client_def deadline_timer_def post_config_def round_status_request_def

lemma cmq_numData_zero: "computeModelQuality l (Fin 0) = 1 / 2"
  by (simp add: computeModelQuality_def split: jsnum.splits)





subsection \<open>The quality formula of evaluateModel\<close>

lemma previous_loss_overwritten:
  assumes "\<not> isNaN l"
  shows "map_of (previousRoundMetrics (snd (evaluateModel c cid (Some l) nd))) cid = Some l"
  using assms by (simp add: evaluateModel_def Let_def update_conv')

lemma spec_quality_pos:
  "0 < d \<Longrightarrow> spec_quality (Some (d + l)) l n = 1 - exp (THETA * (\<bar>d\<bar> * n) powr PHI)"
  by (simp add: spec_quality_def THETA_def PHI_def Let_def)

lemma spec_quality_neg:
  "d < 0 \<Longrightarrow> spec_quality (Some (d + l)) l n = 1 - exp (- THETA * (\<bar>d\<bar> * n) powr PHI)"
  by (simp add: spec_quality_def THETA_def PHI_def Let_def)

lemma evaluateModel_formula:
  assumes prev: "map_of (previousRoundMetrics c) cid = Some (Fin p)"
    and "p \<noteq> 0" and "p \<noteq> l" and "0 < n"
  shows "fst (evaluateModel c cid (Some (Fin l)) (Fin n)) = spec_quality (Some p) l n"
proof -
  have arg: "fst (evaluateModel c cid (Some (Fin l)) (Fin n)) = computeModelQuality (Fin (p - l)) (Fin n)"
    using assms by (simp add: evaluateModel_def get_previousLoss_def quality_argument_def
        js_sub_def Let_def)
  show ?thesis
  proof (cases "0 < p - l")
    case True
    with cmq_pos(1) [of "p - l" n] spec_quality_pos [of "p - l" l n] assms arg
    show ?thesis by simp
  next
    case False
    with assms have "p - l < 0" by simp
    with cmq_neg(1) [of "p - l" n] spec_quality_neg [of "p - l" l n] assms arg
    show ?thesis by simp
  qed
qed

lemma evaluateModel_formula_first:
  assumes prev: "map_of (previousRoundMetrics c) cid = None" and "0 < n"
  shows "fst (evaluateModel c cid (Some (Fin l)) (Fin n)) = spec_quality None l n"
  using assms by (simp add: evaluateModel_def get_previousLoss_def quality_argument_def
        computeModelQuality_def spec_quality_def THETA_def PHI_def Let_def)

text \<open>
  C2. The claim gives the quality as the formula of \<open>\<Delta> = previousLoss - loss\<close> for
  every client with a stored previous loss. The lemmas above establish it when the
  previous loss is not 0 and differs from the current loss, and for a client without
  previous loss. For a client whose loss is unchanged (previous loss 2, current loss 2,
  100 samples) \<open>\<Delta>\<close> is 0 and the formula gives quality 0, while \<open>evaluateModel\<close>
  scores the current loss itself (\<open>lossDifference || currentLoss\<close>) and returns a
  strictly negative quality.
\<close>

theorem evaluateModel_unchanged_loss:
  "fst (evaluateModel cPrev ''a'' (Some (Fin 2)) (Fin 100)) = computeModelQuality (Fin 2) (Fin 100)
   \<and> fst (evaluateModel cPrev ''a'' (Some (Fin 2)) (Fin 100)) < 0
   \<and> spec_quality (Some 2) 2 100 = 0"
proof -
  have a: "fst (evaluateModel cPrev ''a'' (Some (Fin 2)) (Fin 100)) = computeModelQuality (Fin 2) (Fin 100)"
    by (simp add: cPrev_def evaluateModel_def get_previousLoss_def quality_argument_def
        js_sub_def Let_def)
  have b: "computeModelQuality (Fin 2) (Fin 100) < 0" by (rule cmq_pos(2)) simp_all
  have c: "spec_quality (Some 2) 2 100 = 0" by (simp add: spec_quality_def)
  from a b c show ?thesis by simp
qed

subsection \<open>Federated averaging of no update\<close>

lemma federatedAveragingAll_Nil: "federatedAveragingAll [] = Inr []"
  by (simp add: federatedAveragingAll_def init_aggregated_def)

text \<open>
  C4, as stated: federated averaging of an empty mapping fails with an error. It does
  not: no error is raised on the empty mapping.
\<close>

theorem federatedAveragingAll_empty_no_error:
  "\<not> isl (federatedAveragingAll [])"
  by (simp add: federatedAveragingAll_Nil)

text \<open>
  C4, amended: federated averaging of an empty mapping of client updates raises no
  error and returns the empty model update (no layers).
\<close>

theorem federatedAveragingAll_empty_returns_empty_model:
  "federatedAveragingAll [] = Inr []"
  by (rule federatedAveragingAll_Nil)

subsection \<open>Federated averaging of concrete updates\<close>

lemma mismatched_value:
  "federatedAveragingAll mismatched_updates =
     Inr [(''l'', [\<lparr>data = [Fin 2, Fin 1], shape = [2]\<rparr>])]"
  by (simp add: federatedAveragingAll_def init_aggregated_def mismatched_updates_def zero_like_def)

lemma extra_layer_value:
  "federatedAveragingAll extra_layer_updates = Inl TypeError"
  by (simp add: federatedAveragingAll_def init_aggregated_def extra_layer_updates_def zero_like_def)

subsection \<open>Federated averaging of identical updates\<close>


















subsection \<open>When federated averaging throws\<close>

lemma add_layer_length: "add_layer aggs lw n = Inr r \<Longrightarrow> length r = length aggs"
proof (induction aggs lw n arbitrary: r rule: add_layer.induct)
  case (1 aggs n)
  then show ?case by simp
next
  case (2 w ws n)
  then show ?case by (simp split: if_splits)
next
  case (3 a aggs w ws n)
  then show ?case by (auto split: sum.splits)
qed

lemma add_layer_ok_iff:
  "(\<exists>r. add_layer aggs lw n = Inr r) \<longleftrightarrow> fits_layer (length aggs) lw"
proof (induction aggs lw n rule: add_layer.induct)
  case (1 aggs n)
  then show ?case by (simp add: fits_layer_def)
next
  case (2 w ws n)
  then show ?case by (simp add: fits_layer_def)
next
  case (3 a aggs w ws n)
  then show ?case by (auto simp: fits_layer_def split: sum.splits)
qed

lemma tensor_count_update:
  "tensor_count (AList.update name aggs' agg) = (tensor_count agg)(name := length aggs')"
  by (rule ext) (simp add: tensor_count_def update_conv')

lemma add_client_count:
  "add_client agg u n = Inr agg' \<Longrightarrow> tensor_count agg' = tensor_count agg"
proof (induction agg u n arbitrary: agg' rule: add_client.induct)
  case (1 agg n)
  then show ?case by simp
next
  case (2 agg layerName layerWeights rest n)
  show ?case
  proof (cases "map_of agg layerName")
    case None
    with 2 show ?thesis by (simp split: if_splits)
  next
    case (Some aggs)
    with "2.prems" obtain aggs' where
      l: "add_layer aggs layerWeights n = Inr aggs'" and
      r: "add_client (AList.update layerName aggs' agg) rest n = Inr agg'"
      by (auto split: sum.splits)
    from "2.IH"(2) [OF Some l r] have "tensor_count agg' = tensor_count (AList.update layerName aggs' agg)" .
    also have "\<dots> = (tensor_count agg)(layerName := length aggs')" by (rule tensor_count_update)
    also have "\<dots> = tensor_count agg"
      using add_layer_length [OF l] Some by (auto simp: tensor_count_def)
    finally show ?thesis .
  qed
qed

lemma add_client_ok_iff:
  "(\<exists>agg'. add_client agg u n = Inr agg') \<longleftrightarrow> fits agg u"
proof (induction agg u n rule: add_client.induct)
  case (1 agg n)
  then show ?case by (simp add: fits_def)
next
  case (2 agg layerName layerWeights rest n)
  show ?case
  proof (cases "map_of agg layerName")
    case None
    then have tc: "tensor_count agg layerName = 0" by (simp add: tensor_count_def)
    show ?thesis
    proof (cases "list_all (\<lambda>w. data w = []) layerWeights")
      case True
      with "2.IH"(1) [OF None True] None tc show ?thesis
        by (simp add: fits_def fits_layer_def)
    next
      case False
      with None tc show ?thesis by (simp add: fits_def fits_layer_def)
    qed
  next
    case (Some aggs)
    then have tc: "tensor_count agg layerName = length aggs" by (simp add: tensor_count_def)
    show ?thesis
    proof (cases "add_layer aggs layerWeights n")
      case (Inl e)
      with add_layer_ok_iff [of aggs layerWeights n] have "\<not> fits_layer (length aggs) layerWeights"
        by simp
      with Some Inl tc show ?thesis by (simp add: fits_def)
    next
      case (Inr aggs')
      with add_layer_ok_iff [of aggs layerWeights n] have f: "fits_layer (length aggs) layerWeights"
        by auto
      have "tensor_count (AList.update layerName aggs' agg) = tensor_count agg"
        using add_layer_length [OF Inr] Some
        by (auto simp: tensor_count_update tensor_count_def)
      then have "fits (AList.update layerName aggs' agg) rest = fits agg rest"
        by (simp add: fits_def)
      with "2.IH"(2) [OF Some Inr] Some Inr tc f show ?thesis by (simp add: fits_def)
    qed
  qed
qed

lemma fits_cong: "tensor_count a = tensor_count b \<Longrightarrow> fits a u = fits b u"
  by (simp add: fits_def)

lemma add_clients_ok_iff:
  "(\<exists>agg'. add_clients agg cw n = Inr agg') \<longleftrightarrow> list_all (\<lambda>(c, u). fits agg u) cw"
proof (induction agg cw n rule: add_clients.induct)
  case (1 agg n)
  then show ?case by simp
next
  case (2 agg cid clientWeight rest n)
  show ?case
  proof (cases "add_client agg clientWeight n")
    case (Inl e)
    with add_client_ok_iff [of agg clientWeight n] show ?thesis by simp
  next
    case (Inr agg')
    with add_client_ok_iff [of agg clientWeight n] have f: "fits agg clientWeight" by auto
    from add_client_count [OF Inr] have "\<And>u. fits agg' u = fits agg u" by (rule fits_cong)
    with "2.IH" [OF Inr] Inr f show ?thesis by simp
  qed
qed

lemma map_of_zero_like:
  "map_of (map (\<lambda>(layerName, ws). (layerName, map zero_like ws)) m) name
     = map_option (map zero_like) (map_of m name)"
  by (induction m) auto

lemma tensor_count_init: "tensor_count (init_aggregated cw) = tensor_count (first_update cw)"
proof
  fix name
  show "tensor_count (init_aggregated cw) name = tensor_count (first_update cw) name"
  proof (cases cw)
    case Nil
    then show ?thesis by (simp add: init_aggregated_def first_update_def)
  next
    case (Cons p rest)
    obtain c m where "p = (c, m)" by (cases p)
    with Cons show ?thesis
      by (cases "map_of m name")
        (simp_all add: tensor_count_def init_aggregated_def first_update_def map_of_zero_like)
  qed
qed

lemma federatedAveragingAll_fails_iff:
  "federatedAveragingAll cw = Inl TypeError \<longleftrightarrow> \<not> list_all (\<lambda>(c, u). fits (first_update cw) u) cw"
proof -
  have "(\<exists>m. federatedAveragingAll cw = Inr m) \<longleftrightarrow> list_all (\<lambda>(c, u). fits (init_aggregated cw) u) cw"
    by (simp add: federatedAveragingAll_def add_clients_ok_iff)
  also have "\<dots> \<longleftrightarrow> list_all (\<lambda>(c, u). fits (first_update cw) u) cw"
    using fits_cong [OF tensor_count_init [of cw]] by simp
  finally have "(\<exists>m. federatedAveragingAll cw = Inr m) \<longleftrightarrow> list_all (\<lambda>(c, u). fits (first_update cw) u) cw" .
  moreover have "federatedAveragingAll cw = Inl TypeError \<longleftrightarrow> \<not> (\<exists>m. federatedAveragingAll cw = Inr m)"
    by (cases "federatedAveragingAll cw") (auto intro: error.exhaust)
  ultimately show ?thesis by simp
qed

lemma performAggregation_failure:
  assumes "currentRound s = Some r"
    and "federatedAveragingAll
           (selectedWeights (getSelectedClients (modelQualityCalculator s)) (submissions r)) = Inl e"
  shows "globalModel (performAggregation s) = globalModel s"
    and "currentRound (performAggregation s) = currentRound s"
    and "rounds (performAggregation s) = rounds s"
  using assms
  by (auto simp: performAggregation_def calculateAndStoreRoundMeanTime_def
      calculateOverallMeanTime_def Let_def split: option.splits sum.splits)

subsection \<open>Shape mismatches\<close>

lemma cmq_zero_loss: "computeModelQuality (Fin 0) (Fin 1) = 0"
  by (simp add: computeModelQuality_def)

lemma failing_round:
  "currentRound (run async_config failing_events) =
     Some \<lparr>roundId = 1, participants = [],
           submissions =
             [(''a'', [(''l'', [\<lparr>data = [Fin 1], shape = [1]\<rparr>])]),
              (''b'', [(''m'', [\<lparr>data = [Fin 3], shape = [1]\<rparr>])]),
              (''c'', [(''l'', [\<lparr>data = [Fin 5], shape = [1]\<rparr>])])],
           aggregated = None, round_status = in_progress\<rparr>"
  by (simp add: run_defs async_config_def failing_events_def Let_def cmq_numData_zero
      cmq_zero_loss deadlineMs_def)

lemma failing_selected:
  "getSelectedClients (modelQualityCalculator (run async_config failing_events)) = [''a'', ''b'']"
  by (simp add: run_defs async_config_def failing_events_def Let_def cmq_numData_zero
      cmq_zero_loss deadlineMs_def)

lemma failing_global:
  "globalModel (run async_config failing_events) = None"
  by (simp add: run_defs async_config_def failing_events_def Let_def cmq_numData_zero
      cmq_zero_loss deadlineMs_def)

text \<open>
  C5, as stated: whenever some update does not match the shapes of the first update,
  federated averaging fails. It does not: for two updates whose only tensor has two
  numbers and shape \<open>[2]\<close> in the first and one number and shape \<open>[1]\<close> in the second,
  a model is returned.
\<close>

theorem mismatched_shapes_averaged:
  "federatedAveragingAll mismatched_updates =
     Inr [(''l'', [\<lparr>data = [Fin 2, Fin 1], shape = [2]\<rparr>])]"
  by (rule mismatched_value)

text \<open>
  C5, amended: federated averaging compares no shapes. It fails, with a TypeError,
  exactly when some update holds a tensor with non-empty data under a layer name that
  the first update does not have, or at a tensor position beyond the first update's
  tensors of that layer; and when it fails inside \<open>performAggregation\<close>, the global
  model is left unchanged.
\<close>

theorem federatedAveragingAll_failure:
  "(federatedAveragingAll cw = Inl TypeError
      \<longleftrightarrow> \<not> list_all (\<lambda>(c, u). fits (first_update cw) u) cw)
   \<and> (currentRound s = Some r
        \<and> federatedAveragingAll
            (selectedWeights (getSelectedClients (modelQualityCalculator s)) (submissions r))
            = Inl e
      \<longrightarrow> globalModel (performAggregation s) = globalModel s)"
  using federatedAveragingAll_fails_iff [of cw] performAggregation_failure(1) [of s r e]
  by blast

theorem federatedAveragingAll_failure_witness:
  "federatedAveragingAll extra_layer_updates = Inl TypeError
   \<and> \<not> list_all (\<lambda>(c, u). fits (first_update extra_layer_updates) u) extra_layer_updates
   \<and> (\<exists>r. currentRound (run async_config failing_events) = Some r
          \<and> federatedAveragingAll
               (selectedWeights
                  (getSelectedClients (modelQualityCalculator (run async_config failing_events)))
                  (submissions r)) = Inl TypeError)
   \<and> globalModel (performAggregation (run async_config failing_events)) = None"
proof -
  let ?s = "run async_config failing_events"
  let ?r = "\<lparr>roundId = 1, participants = [],
           submissions =
             [(''a'', [(''l'', [\<lparr>data = [Fin 1], shape = [1]\<rparr>])]),
              (''b'', [(''m'', [\<lparr>data = [Fin 3], shape = [1]\<rparr>])]),
              (''c'', [(''l'', [\<lparr>data = [Fin 5], shape = [1]\<rparr>])])],
           aggregated = None, round_status = in_progress\<rparr>"
  have r: "currentRound ?s = Some ?r" by (rule failing_round)
  have f: "federatedAveragingAll
             (selectedWeights (getSelectedClients (modelQualityCalculator ?s)) (submissions ?r))
           = Inl TypeError"
    by (simp add: failing_selected selectedWeights_def federatedAveragingAll_def
        init_aggregated_def zero_like_def)
  note t = federatedAveragingAll_failure [of extra_layer_updates ?s ?r TypeError]
  from t extra_layer_value
  have a: "\<not> list_all (\<lambda>(c, u). fits (first_update extra_layer_updates) u) extra_layer_updates"
    by blast
  from t r f have "globalModel (performAggregation ?s) = globalModel ?s" by blast
  then have g: "globalModel (performAggregation ?s) = None" by (simp only: failing_global)
  from r f have "\<exists>r. currentRound ?s = Some r
          \<and> federatedAveragingAll
               (selectedWeights (getSelectedClients (modelQualityCalculator ?s)) (submissions r))
              = Inl TypeError"
    by blast
  with extra_layer_value a g show ?thesis by blast
qed

subsection \<open>Aggregation with an empty selection\<close>

lemma federatedAveraging_fallback:
  "getSelectedClients calc = [] \<Longrightarrow> federatedAveraging calc cw = federatedAveragingAll cw"
  by (simp add: federatedAveraging_def)

lemma equal_quality_average:
  "federatedAveragingAll equal_quality_updates = Inr [(''l'', [\<lparr>data = [Fin 2], shape = [1]\<rparr>])]"
  by (simp add: federatedAveragingAll_def init_aggregated_def equal_quality_updates_def zero_like_def)

lemma equal_quality_selected:
  "getSelectedClients (modelQualityCalculator (run two_client_config equal_quality_events)) = []"
  by (simp add: run_defs two_client_config_def equal_quality_events_def Let_def
      cmq_numData_zero deadlineMs_def)

text \<open>
  C3. The claim: when the selection is empty while clients have submitted, the new
  global model is the federated average of all submitted updates. In the round below,
  two clients submit, both get quality 0.5 and none is selected; \<open>performAggregation\<close>
  averages the empty set of selected weights and the global model becomes the empty
  model, while the average of the two submissions, which \<open>federatedAveraging\<close> would
  return, has the layer \<open>l\<close> with value 2.
\<close>

theorem empty_selection_no_fallback:
  "map submissions (rounds (run two_client_config equal_quality_events)) = [equal_quality_updates]
   \<and> getSelectedClients (modelQualityCalculator (run two_client_config equal_quality_events)) = []
   \<and> globalModel (run two_client_config equal_quality_events) = Some []
   \<and> federatedAveragingAll equal_quality_updates
        = Inr [(''l'', [\<lparr>data = [Fin 2], shape = [1]\<rparr>])]
   \<and> federatedAveraging (modelQualityCalculator (run two_client_config equal_quality_events))
        equal_quality_updates
        = Inr [(''l'', [\<lparr>data = [Fin 2], shape = [1]\<rparr>])]"
proof -
  have a: "map submissions (rounds (run two_client_config equal_quality_events)) = [equal_quality_updates]"
    by (simp add: run_defs two_client_config_def equal_quality_events_def Let_def
      cmq_numData_zero deadlineMs_def equal_quality_updates_def)
  have b: "globalModel (run two_client_config equal_quality_events) = Some []"
    by (simp add: run_defs two_client_config_def equal_quality_events_def Let_def
      cmq_numData_zero deadlineMs_def)
  from a b equal_quality_selected equal_quality_average
    federatedAveraging_fallback [OF equal_quality_selected, of equal_quality_updates]
  show ?thesis by simp
qed

subsection \<open>The synchronous barrier\<close>

lemmas barrier_simps = run_defs example_config_def barrier_events_def barrier_submit_def Let_def
  cmq_numData_zero deadlineMs_def

text \<open>
  C7. The claim: in a synchronous round, aggregation is never triggered before every
  registered client has an entry in the round's submissions. After the events below
  the round is synchronous, the registered clients are \<open>b\<close> and \<open>c\<close>, and only the
  removed client \<open>a\<close> has submitted. The submission of \<open>b\<close> then triggers aggregation
  (two entries, two registered clients) and completes the round, although the
  registered client \<open>c\<close> has no entry.
\<close>

theorem sync_round_aggregates_without_registered_client:
  "shouldUseSynchronousMode (run example_config barrier_events)
   \<and> map fst (clients (run example_config barrier_events)) = [''b'', ''c'']
   \<and> map_option (map fst \<circ> submissions) (currentRound (run example_config barrier_events))
        = Some [''a'']
   \<and> currentRound (handle (run example_config barrier_events) barrier_submit) = None
   \<and> map (map fst \<circ> submissions) (rounds (handle (run example_config barrier_events) barrier_submit))
        = [[''a'', ''b'']]
   \<and> map round_status (rounds (handle (run example_config barrier_events) barrier_submit))
        = [completed]
   \<and> map fst (clients (handle (run example_config barrier_events) barrier_submit)) = [''b'', ''c'']"
proof -
  have s0: "run example_config barrier_events =
    \<lparr>serverConfig = example_config, REQUIRED_CLIENTS = 3, TOTAL_ROUNDS = 5,
     clients = [(''b'', \<lparr>info_clientId = ''b'', status = training, lastUpdate = 0\<rparr>),
                (''c'', \<lparr>info_clientId = ''c'', status = training, lastUpdate = 0\<rparr>)],
     rounds = [],
     currentRound = Some \<lparr>roundId = 1, participants = [],
        submissions = [(''a'', [(''l'', [\<lparr>data = [Fin 1], shape = [1]\<rparr>])])],
        aggregated = None, round_status = in_progress\<rparr>,
     globalModel = None, currentRoundNumber = 1, isAggregating = False,
     roundDeadline = None, roundStartTime = Some 0,
     clientTimingMetrics = [(''a'', [\<lparr>trainingTime = 1, communicationTime = 1, timestamp = 1\<rparr>])],
     roundMeanTimes = [], overallMeanTime = 0,
     modelQualityCalculator =
       \<lparr>clientMetrics = [(''a'', \<lparr>clientId = ''a'', loss = Fin 1, previousLoss = None,
                      lossDifference = None, numData = Fin 0, quality = 1 / 2\<rparr>)],
        previousRoundMetrics = [(''a'', Fin 1)]\<rparr>,
     deadlineTimers = [], startTimers = 0\<rparr>"
    by (simp add: barrier_simps)
  have a: "shouldUseSynchronousMode (run example_config barrier_events)"
    unfolding s0 by (simp add: shouldUseSynchronousMode_def example_config_def)
  have b: "map fst (clients (run example_config barrier_events)) = [''b'', ''c'']"
    unfolding s0 by simp
  have c: "map_option (map fst \<circ> submissions) (currentRound (run example_config barrier_events))
        = Some [''a'']"
    unfolding s0 by simp
  have d: "currentRound (handle (run example_config barrier_events) barrier_submit) = None"
    unfolding s0 by (simp add: barrier_simps)
  have e: "map (map fst \<circ> submissions) (rounds (handle (run example_config barrier_events) barrier_submit))
        = [[''a'', ''b'']]"
    unfolding s0 by (simp add: barrier_simps)
  have f: "map round_status (rounds (handle (run example_config barrier_events) barrier_submit))
        = [completed]"
    unfolding s0 by (simp add: barrier_simps)
  have g: "map fst (clients (handle (run example_config barrier_events) barrier_submit)) = [''b'', ''c'']"
    unfolding s0 by (simp add: barrier_simps)
  from a b c d e f g show ?thesis by (intro conjI)
qed

subsection \<open>The overall mean time\<close>








subsection \<open>The deadline of an asynchronous round\<close>





lemma deadlineMs_bounds: "10000 \<le> deadlineMs omt \<and> deadlineMs omt \<le> 60000"
  by (simp add: deadlineMs_def)



subsection \<open>Submissions and the client registry\<close>

lemma keys_set_all_status [simp]: "map fst (set_all_status st cs) = map fst cs"
  by (induction cs) (auto simp: set_all_status_def)

lemma startNewRound_frame:
  "set (round_submissions (startNewRound s now)) \<subseteq> insert [] (set (round_submissions s))"
  "map fst (clients (startNewRound s now)) = map fst (clients s)"
  by (auto simp: startNewRound_def round_submissions_def Let_def split: option.splits)

lemma calculate_frame:
  assumes "calculateAndStoreRoundMeanTime s n = Inr s'"
  shows "currentRound s' = currentRound s" "rounds s' = rounds s" "clients s' = clients s"
  using assms
  by (auto simp: calculateAndStoreRoundMeanTime_def calculateOverallMeanTime_def Let_def
      split: sum.splits if_splits)

lemma performAggregation_frame:
  "set (round_submissions (performAggregation s)) = set (round_submissions s)"
  "map fst (clients (performAggregation s)) = map fst (clients s)"
proof -
  show "set (round_submissions (performAggregation s)) = set (round_submissions s)"
  proof (cases "currentRound s")
    case None
    then show ?thesis by (simp add: performAggregation_def)
  next
    case (Some r)
    show ?thesis
    proof (cases "calculateAndStoreRoundMeanTime (s\<lparr>isAggregating := True\<rparr>) (currentRoundNumber s)")
      case (Inl e)
      with Some show ?thesis by (simp add: performAggregation_def round_submissions_def)
    next
      case (Inr s1)
      from calculate_frame [OF Inr] Some Inr show ?thesis
        by (auto simp: performAggregation_def round_submissions_def Let_def split: sum.splits)
    qed
  qed
  show "map fst (clients (performAggregation s)) = map fst (clients s)"
  proof (cases "currentRound s")
    case None
    then show ?thesis by (simp add: performAggregation_def)
  next
    case (Some r)
    show ?thesis
    proof (cases "calculateAndStoreRoundMeanTime (s\<lparr>isAggregating := True\<rparr>) (currentRoundNumber s)")
      case (Inl e)
      with Some show ?thesis by (simp add: performAggregation_def)
    next
      case (Inr s1)
      from calculate_frame [OF Inr] Some Inr show ?thesis
        by (auto simp: performAggregation_def Let_def split: sum.splits)
    qed
  qed
qed

lemma startNewRound_keys: "fst ` set (clients (startNewRound s now)) = fst ` set (clients s)"
  using startNewRound_frame(2) [of s now] by (metis set_map)

lemma performAggregation_keys: "fst ` set (clients (performAggregation s)) = fst ` set (clients s)"
  using performAggregation_frame(2) [of s] by (metis set_map)

lemma no_duplicates_iff:
  "no_duplicates s \<longleftrightarrow> (\<forall>subs \<in> set (round_submissions s). distinct (map fst subs))"
  by (simp add: no_duplicates_def list_all_iff)

lemma submitters_registered_iff:
  "submitters_registered s \<longleftrightarrow>
     (\<forall>subs \<in> set (round_submissions s). set (map fst subs) \<subseteq> set (map fst (clients s)))"
  by (simp add: submitters_registered_def list_all_iff)

lemma all_subset_insert:
  "\<forall>x \<in> A. P x \<Longrightarrow> B \<subseteq> insert e A \<Longrightarrow> P e \<Longrightarrow> \<forall>x \<in> B. P x"
  by blast

lemma no_duplicates_startNewRound: "no_duplicates s \<Longrightarrow> no_duplicates (startNewRound s now)"
  unfolding no_duplicates_iff
  by (erule all_subset_insert [OF _ startNewRound_frame(1)]) simp

lemma no_duplicates_performAggregation: "no_duplicates s \<Longrightarrow> no_duplicates (performAggregation s)"
  unfolding no_duplicates_iff by (simp only: performAggregation_frame(1))

lemma submitters_registered_startNewRound:
  "submitters_registered s \<Longrightarrow> submitters_registered (startNewRound s now)"
  unfolding submitters_registered_iff set_map startNewRound_keys
  by (erule all_subset_insert [OF _ startNewRound_frame(1)]) simp

lemma submitters_registered_performAggregation:
  "submitters_registered s \<Longrightarrow> submitters_registered (performAggregation s)"
  unfolding submitters_registered_iff set_map
  by (simp only: performAggregation_frame(1) performAggregation_keys)

text \<open>The state of \<open>submit_weights\<close> just before the aggregation check.\<close>

lemma submit_weights_cases [case_names unchanged stored]:
  obtains (unchanged) "submit_weights s cid weights nd tTime cst ev perfNow now = s"
  | (stored) client r s3 where
      "map_of (clients s) cid = Some client" and "currentRound s = Some r"
      and "rounds s3 = rounds s"
      and "clients s3
            = AList.update cid (client\<lparr>status := aggregating, lastUpdate := now\<rparr>) (clients s)"
      and "currentRound s3
            = Some (r\<lparr>submissions := AList.update cid weights (submissions r)\<rparr>)"
      and "submit_weights s cid weights nd tTime cst ev perfNow now = s3
             \<or> submit_weights s cid weights nd tTime cst ev perfNow now = performAggregation s3"
proof (cases "map_of (clients s) cid")
  case None
  then have "submit_weights s cid weights nd tTime cst ev perfNow now = s"
    by (simp add: submit_weights_def)
  then show thesis by (rule unchanged)
next
  case c: (Some client)
  show thesis
  proof (cases "currentRound s")
    case None
    with c have "submit_weights s cid weights nd tTime cst ev perfNow now = s"
      by (simp add: submit_weights_def)
    then show thesis by (rule unchanged)
  next
    case r: (Some r)
    show thesis
    proof (cases "map_of (submissions r) cid")
      case (Some w)
      with c r have "submit_weights s cid weights nd tTime cst ev perfNow now = s"
        by (simp add: submit_weights_def)
      then show thesis by (rule unchanged)
    next
      case None
      obtain q calc where e: "evaluateModel (modelQualityCalculator s) cid ev nd = (q, calc)"
        by (cases "evaluateModel (modelQualityCalculator s) cid ev nd")
      define s3 where "s3 = s\<lparr>clientTimingMetrics :=
                    push_timing cid \<lparr>trainingTime = tTime, communicationTime = perfNow - cst,
                                     timestamp = now\<rparr> (clientTimingMetrics s),
                  modelQualityCalculator := calc,
                  clients := AList.update cid (client\<lparr>status := aggregating, lastUpdate := now\<rparr>) (clients s),
                  currentRound := Some (r\<lparr>submissions := AList.update cid weights (submissions r)\<rparr>)\<rparr>"
      have 1: "submit_weights s cid weights nd tTime cst ev perfNow now = s3
             \<or> submit_weights s cid weights nd tTime cst ev perfNow now = performAggregation s3"
        using c r None e by (simp add: submit_weights_def Let_def s3_def)
      have 2: "rounds s3 = rounds s" by (simp add: s3_def)
      have 3: "clients s3 = AList.update cid (client\<lparr>status := aggregating, lastUpdate := now\<rparr>) (clients s)"
        by (simp add: s3_def)
      have 4: "currentRound s3 = Some (r\<lparr>submissions := AList.update cid weights (submissions r)\<rparr>)"
        by (simp add: s3_def)
      from c r 2 3 4 1 show thesis by (rule stored)
    qed
  qed
qed

lemma round_submissions_cong:
  "currentRound s' = currentRound s \<Longrightarrow> rounds s' = rounds s
     \<Longrightarrow> round_submissions s' = round_submissions s"
  by (simp add: round_submissions_def)

lemma no_duplicates_cong:
  "currentRound s' = currentRound s \<Longrightarrow> rounds s' = rounds s
     \<Longrightarrow> no_duplicates s \<Longrightarrow> no_duplicates s'"
  by (simp add: no_duplicates_def round_submissions_def)

lemma submitters_registered_mono:
  assumes "currentRound s' = currentRound s" and "rounds s' = rounds s"
    and "fst ` set (clients s) \<subseteq> fst ` set (clients s')"
    and "submitters_registered s"
  shows "submitters_registered s'"
  using assms(3,4) unfolding submitters_registered_iff set_map
    round_submissions_cong [OF assms(1,2)] by blast

lemma round_submissions_submit:
  assumes "currentRound s = Some r" and "rounds s3 = rounds s"
    and "currentRound s3 = Some (r\<lparr>submissions := AList.update cid weights (submissions r)\<rparr>)"
  shows "round_submissions s = submissions r # map submissions (rounds s)"
    and "round_submissions s3 = AList.update cid weights (submissions r) # map submissions (rounds s)"
  using assms by (simp_all add: round_submissions_def)

lemma no_duplicates_stored:
  assumes "no_duplicates s" and "currentRound s = Some r" and "rounds s3 = rounds s"
    and "currentRound s3 = Some (r\<lparr>submissions := AList.update cid weights (submissions r)\<rparr>)"
  shows "no_duplicates s3"
proof -
  note rs = round_submissions_submit [OF assms(2,3,4)]
  from assms(1) have a: "distinct (map fst (submissions r))"
    and b: "\<forall>subs \<in> set (map submissions (rounds s)). distinct (map fst subs)"
    unfolding no_duplicates_iff rs by simp_all
  from a have "distinct (map fst (AList.update cid weights (submissions r)))"
    by (rule distinct_update)
  with b show ?thesis unfolding no_duplicates_iff rs by simp
qed

lemma submitters_registered_stored:
  assumes "submitters_registered s" and "map_of (clients s) cid = Some client"
    and "currentRound s = Some r" and "rounds s3 = rounds s"
    and "clients s3 = AList.update cid client' (clients s)"
    and "currentRound s3 = Some (r\<lparr>submissions := AList.update cid weights (submissions r)\<rparr>)"
  shows "submitters_registered s3"
proof -
  note rs = round_submissions_submit [OF assms(3,4,6)]
  from assms(2) have "(cid, client) \<in> set (clients s)" by (rule map_of_SomeD)
  then have cid: "cid \<in> fst ` set (clients s)" by force
  have keys: "fst ` set (clients s3) = insert cid (fst ` set (clients s))"
    by (simp add: assms(5) dom_update)
  from assms(1) have a: "fst ` set (submissions r) \<subseteq> fst ` set (clients s)"
    and b: "\<forall>subs \<in> set (map submissions (rounds s)). fst ` set subs \<subseteq> fst ` set (clients s)"
    unfolding submitters_registered_iff set_map rs by simp_all
  have a': "fst ` set (AList.update cid weights (submissions r)) \<subseteq> insert cid (fst ` set (clients s))"
    using a by (simp only: dom_update) blast
  from b have b': "\<forall>subs \<in> set (map submissions (rounds s)).
      fst ` set subs \<subseteq> insert cid (fst ` set (clients s))"
    by blast
  from a' b' show ?thesis
    unfolding submitters_registered_iff set_map rs keys by simp
qed

lemma no_duplicates_submit:
  assumes "no_duplicates s"
  shows "no_duplicates (submit_weights s cid weights nd tTime cst ev perfNow now)"
proof (rule submit_weights_cases [of s cid weights nd tTime cst ev perfNow now])
  assume "submit_weights s cid weights nd tTime cst ev perfNow now = s"
  with assms show ?thesis by simp
next
  fix client r s3
  assume stored: "map_of (clients s) cid = Some client" "currentRound s = Some r"
    "rounds s3 = rounds s"
    "clients s3
       = AList.update cid (client\<lparr>status := aggregating, lastUpdate := now\<rparr>) (clients s)"
    "currentRound s3
       = Some (r\<lparr>submissions := AList.update cid weights (submissions r)\<rparr>)"
    "submit_weights s cid weights nd tTime cst ev perfNow now = s3
       \<or> submit_weights s cid weights nd tTime cst ev perfNow now = performAggregation s3"
  from no_duplicates_stored [OF assms stored(2,3,5)] have n: "no_duplicates s3" .
  from stored(6) show ?thesis
  proof
    assume "submit_weights s cid weights nd tTime cst ev perfNow now = s3"
    with n show ?thesis by simp
  next
    assume "submit_weights s cid weights nd tTime cst ev perfNow now = performAggregation s3"
    with no_duplicates_performAggregation [OF n] show ?thesis by simp
  qed
qed

lemma submitters_registered_submit:
  assumes "submitters_registered s"
  shows "submitters_registered (submit_weights s cid weights nd tTime cst ev perfNow now)"
proof (rule submit_weights_cases [of s cid weights nd tTime cst ev perfNow now])
  assume "submit_weights s cid weights nd tTime cst ev perfNow now = s"
  with assms show ?thesis by simp
next
  fix client r s3
  assume stored: "map_of (clients s) cid = Some client" "currentRound s = Some r"
    "rounds s3 = rounds s"
    "clients s3
       = AList.update cid (client\<lparr>status := aggregating, lastUpdate := now\<rparr>) (clients s)"
    "currentRound s3
       = Some (r\<lparr>submissions := AList.update cid weights (submissions r)\<rparr>)"
    "submit_weights s cid weights nd tTime cst ev perfNow now = s3
       \<or> submit_weights s cid weights nd tTime cst ev perfNow now = performAggregation s3"
  from submitters_registered_stored [OF assms stored(1,2,3,4,5)]
  have n: "submitters_registered s3" .
  from stored(6) show ?thesis
  proof
    assume "submit_weights s cid weights nd tTime cst ev perfNow now = s3"
    with n show ?thesis by simp
  next
    assume "submit_weights s cid weights nd tTime cst ev perfNow now = performAggregation s3"
    with submitters_registered_performAggregation [OF n] show ?thesis by simp
  qed
qed

lemma no_duplicates_handle:
  assumes "no_duplicates s"
  shows "no_duplicates (handle s e)"
proof (cases e)
  case (Register cid now)
  have u: "no_duplicates (s\<lparr>clients := cs\<rparr>)" for cs
    using _ _ assms by (rule no_duplicates_cong) simp_all
  show ?thesis unfolding Register handle.simps register_def Let_def
    using assms u by (simp add: no_duplicates_startNewRound)
next
  case (RoundStatus cid now)
  show ?thesis unfolding RoundStatus handle.simps round_status_request_def
    using assms by (simp add: no_duplicates_startNewRound split: option.splits)
next
  case (SubmitWeights cid weights nd tTime cst ev perfNow now)
  with assms show ?thesis by (simp add: no_duplicates_submit)
next
  case (DeleteClient cid)
  have u: "no_duplicates (s\<lparr>clients := cs\<rparr>)" for cs
    using _ _ assms by (rule no_duplicates_cong) simp_all
  show ?thesis unfolding DeleteClient handle.simps delete_client_def
    using assms u by simp
next
  case (PostConfig n)
  have u: "no_duplicates (s\<lparr>serverConfig := c, REQUIRED_CLIENTS := a, TOTAL_ROUNDS := b\<rparr>)" for a b c
    using _ _ assms by (rule no_duplicates_cong) simp_all
  show ?thesis unfolding PostConfig handle.simps post_config_def Let_def
    using assms u by simp
next
  case (DeadlineTimer t)
  have u: "no_duplicates (s\<lparr>deadlineTimers := ts\<rparr>)" for ts
    using _ _ assms by (rule no_duplicates_cong) simp_all
  show ?thesis unfolding DeadlineTimer handle.simps deadline_timer_def Let_def
    using assms u by (simp add: no_duplicates_performAggregation)
next
  case (StartTimer now)
  have u: "no_duplicates (s\<lparr>startTimers := k\<rparr>)" for k
    using _ _ assms by (rule no_duplicates_cong) simp_all
  show ?thesis unfolding StartTimer handle.simps start_timer_def
    using assms u by (simp add: no_duplicates_startNewRound split: nat.splits)
qed

lemma submitters_registered_handle:
  assumes "submitters_registered s" and "\<not> is_delete e"
  shows "submitters_registered (handle s e)"
proof (cases e)
  case (Register cid now)
  have u: "submitters_registered (s\<lparr>clients := AList.update cid ci (clients s)\<rparr>)" for ci
    using _ _ _ assms(1) by (rule submitters_registered_mono) (auto simp: dom_update)
  show ?thesis unfolding Register handle.simps register_def Let_def
    using assms u by (simp add: submitters_registered_startNewRound)
next
  case (RoundStatus cid now)
  show ?thesis unfolding RoundStatus handle.simps round_status_request_def
    using assms by (simp add: submitters_registered_startNewRound split: option.splits)
next
  case (SubmitWeights cid weights nd tTime cst ev perfNow now)
  with assms show ?thesis by (simp add: submitters_registered_submit)
next
  case (DeleteClient cid)
  with assms show ?thesis by simp
next
  case (PostConfig n)
  have u: "submitters_registered (s\<lparr>serverConfig := c, REQUIRED_CLIENTS := a, TOTAL_ROUNDS := b\<rparr>)" for a b c
    using _ _ _ assms(1) by (rule submitters_registered_mono) simp_all
  show ?thesis unfolding PostConfig handle.simps post_config_def Let_def
    using assms u by simp
next
  case (DeadlineTimer t)
  have u: "submitters_registered (s\<lparr>deadlineTimers := ts\<rparr>)" for ts
    using _ _ _ assms(1) by (rule submitters_registered_mono) simp_all
  show ?thesis unfolding DeadlineTimer handle.simps deadline_timer_def Let_def
    using assms u by (simp add: submitters_registered_performAggregation)
next
  case (StartTimer now)
  have u: "submitters_registered (s\<lparr>startTimers := k\<rparr>)" for k
    using _ _ _ assms(1) by (rule submitters_registered_mono) simp_all
  show ?thesis unfolding StartTimer handle.simps start_timer_def
    using assms u by (simp add: submitters_registered_startNewRound split: nat.splits)
qed

lemma no_duplicates_run: "no_duplicates (run cfg evs)"
proof (induction evs rule: rev_induct)
  case Nil
  show ?case by (simp add: run_def initial_server_def no_duplicates_def round_submissions_def)
next
  case (snoc e evs)
  then show ?case by (simp only: run_snoc no_duplicates_handle)
qed

lemma submitters_registered_run:
  "\<not> list_ex is_delete evs \<Longrightarrow> submitters_registered (run cfg evs)"
proof (induction evs rule: rev_induct)
  case Nil
  show ?case
    by (simp add: run_def initial_server_def submitters_registered_def round_submissions_def)
next
  case (snoc e evs)
  then show ?case by (simp add: run_snoc submitters_registered_handle)
qed

lemmas removal_simps = run_defs two_client_config_def example_config_def removal_events_def
  partial_round_events_def Let_def cmq_numData_zero deadlineMs_def

text \<open>
  C9, as stated: in every reachable state the submissions map of a round has at most
  as many entries as there are registered clients. After the events below the round in
  progress holds the entries of \<open>a\<close> and \<open>b\<close>, and \<open>b\<close> is the only registered client.
\<close>

theorem removal_exceeds_registry:
  "map_option (map fst \<circ> submissions) (currentRound (run two_client_config removal_events))
     = Some [''a'', ''b'']
   \<and> map fst (clients (run two_client_config removal_events)) = [''b'']
   \<and> map_option (length \<circ> submissions) (currentRound (run two_client_config removal_events))
     = Some 2
   \<and> length (clients (run two_client_config removal_events)) = 1"
  by (simp add: removal_simps)

lemma length_le_of_keys:
  assumes "distinct (map fst subs)" and "set (map fst subs) \<subseteq> set (map fst cs)"
  shows "length subs \<le> length cs"
proof -
  from assms(1) have "length subs = card (set (map fst subs))"
    by (metis distinct_card length_map)
  also from assms(2) have "\<dots> \<le> card (set (map fst cs))" by (intro card_mono) simp_all
  also have "\<dots> \<le> length (map fst cs)" by (rule card_length)
  finally show ?thesis by simp
qed

text \<open>
  C9, amended: in every reachable state no client id appears twice in the submissions
  map of any round; and in every state reached without the removal of a client, every
  id in the submissions map of a round is a registered client, so that the number of
  entries is at most the number of registered clients.
\<close>

theorem submissions_bounded_without_removal:
  "(\<forall>subs \<in> set (round_submissions (run cfg evs)). distinct (map fst subs))
   \<and> (\<not> list_ex is_delete evs \<longrightarrow>
        (\<forall>subs \<in> set (round_submissions (run cfg evs)).
           set (map fst subs) \<subseteq> set (map fst (clients (run cfg evs)))
           \<and> length subs \<le> length (clients (run cfg evs))))"
proof (intro conjI impI ballI)
  fix subs assume "subs \<in> set (round_submissions (run cfg evs))"
  with no_duplicates_run [of cfg evs] show "distinct (map fst subs)"
    by (simp add: no_duplicates_iff)
next
  fix subs
  assume nd: "\<not> list_ex is_delete evs" and m: "subs \<in> set (round_submissions (run cfg evs))"
  from submitters_registered_run [OF nd, of cfg] m
  show sub: "set (map fst subs) \<subseteq> set (map fst (clients (run cfg evs)))"
    unfolding submitters_registered_iff by blast
  from no_duplicates_run [of cfg evs] m have "distinct (map fst subs)"
    by (simp add: no_duplicates_iff)
  then show "length subs \<le> length (clients (run cfg evs))"
    using sub by (rule length_le_of_keys)
qed

theorem submissions_bounded_without_removal_witness:
  "\<not> list_ex is_delete partial_round_events
   \<and> round_submissions (run example_config partial_round_events) = [[(''a'', []), (''b'', [])]]
   \<and> distinct (map fst [(''a'', [] :: Model), (''b'', [])])
   \<and> length [(''a'', [] :: Model), (''b'', [])] \<le> length (clients (run example_config partial_round_events))
   \<and> length (clients (run example_config partial_round_events)) = 3"
proof -
  have nd: "\<not> list_ex is_delete partial_round_events"
    by (simp add: partial_round_events_def)
  have rs: "round_submissions (run example_config partial_round_events) = [[(''a'', []), (''b'', [])]]"
    by (simp add: removal_simps round_submissions_def)
  have len: "length (clients (run example_config partial_round_events)) = 3"
    by (simp add: removal_simps)
  note t = submissions_bounded_without_removal [of example_config partial_round_events]
  from t nd rs have "length [(''a'', [] :: Model), (''b'', [])]
      \<le> length (clients (run example_config partial_round_events))"
    by simp
  moreover from t rs have "distinct (map fst [(''a'', [] :: Model), (''b'', [])])" by simp
  ultimately show ?thesis using nd rs len by blast
qed

subsection \<open>Deadline callbacks of earlier rounds\<close>

text \<open>
  A deadline callback is not cancelled when its round completes, and it does not check
  which round is in progress. Below, round 2 starts at 1001 with the deadline 41001
  while the callback of round 1, due at 30000, is still pending; when that callback
  runs it aggregates and completes round 2.
\<close>

lemma stale_deadline_timer:
  "roundStartTime (run always_async_config stale_timer_events) = Some 1001
   \<and> roundDeadline (run always_async_config stale_timer_events) = Some 41001
   \<and> deadlineTimers (run always_async_config stale_timer_events) = [30000, 41001]
   \<and> map_option roundId (currentRound (run always_async_config stale_timer_events)) = Some 2
   \<and> currentRound (handle (run always_async_config stale_timer_events) (DeadlineTimer 30000)) = None
   \<and> map roundId (rounds (handle (run always_async_config stale_timer_events) (DeadlineTimer 30000)))
        = [1, 2]"
  by (simp add: run_defs always_async_config_def stale_timer_events_def Let_def
      cmq_numData_zero deadlineMs_def)

end
